theory Spec2Isabelle
  imports Main "HOL-Library.Word"
begin

section \<open>Strings and address normalisation\<close>

text \<open>
  Strings are byte strings (\<open>char list\<close>). The monitors only handle ASCII text here
  (hexadecimal addresses, entity ids such as \<open>0.0.1234\<close>), so JavaScript's
  \<open>toLowerCase\<close> is modelled on the ASCII letters \<open>A\<close> .. \<open>Z\<close> and is the identity elsewhere.
\<close>

definition toLowerCase_char :: "char \<Rightarrow> char" where
  "toLowerCase_char c =
     (case map_of (zip ''ABCDEFGHIJKLMNOPQRSTUVWXYZ'' ''abcdefghijklmnopqrstuvwxyz'') c of
        None \<Rightarrow> c
      | Some l \<Rightarrow> l)"

definition toLowerCase :: "string \<Rightarrow> string" where
  "toLowerCase s = map toLowerCase_char s"

text \<open>
  \<open>s.replace("0x", "")\<close> with a string pattern removes the first occurrence of \<open>0x\<close>,
  wherever it stands.
\<close>

fun replace_0x :: "string \<Rightarrow> string" where
  "replace_0x (c # d # cs) =
     (if c = CHR ''0'' \<and> d = CHR ''x'' then cs else c # replace_0x (d # cs))"
| "replace_0x cs = cs"

text \<open>\<open>s.replace(/^0x/, "")\<close> removes \<open>0x\<close> at the start of the string only.\<close>

fun replace_prefix_0x :: "string \<Rightarrow> string" where
  "replace_prefix_0x (c # d # cs) =
     (if c = CHR ''0'' \<and> d = CHR ''x'' then cs else c # d # cs)"
| "replace_prefix_0x cs = cs"

text \<open>The polling monitor: \<open>address.toLowerCase().replace("0x", "")\<close>.\<close>

definition normalizeEvmAddress :: "string \<Rightarrow> string" where
  "normalizeEvmAddress address = replace_0x (toLowerCase address)"

text \<open>
  The database monitor accepts anything: a falsy value (\<open>null\<close>, \<open>undefined\<close>, the empty
  string) gives \<open>null\<close>, a \<open>Buffer\<close> or \<open>Uint8Array\<close> is printed in hexadecimal, anything
  else is turned into a string, lowercased, and loses a leading \<open>0x\<close>.
\<close>

type_synonym bytes = "8 word list"

datatype address_input = Absent | Raw bytes | Text string

definition hex_digit :: "nat \<Rightarrow> char" where
  "hex_digit n = ''0123456789abcdef'' ! (n mod 16)"

definition hex_byte :: "8 word \<Rightarrow> string" where
  "hex_byte b = [hex_digit (unat b div 16), hex_digit (unat b mod 16)]"

definition toHex :: "bytes \<Rightarrow> string" where
  "toHex bs = concat (map hex_byte bs)"

fun normalizeEvmAddress_db :: "address_input \<Rightarrow> string option" where
  "normalizeEvmAddress_db Absent = None"
| "normalizeEvmAddress_db (Raw bs) = Some (toLowerCase (toHex bs))"
| "normalizeEvmAddress_db (Text s) =
     (if s = [] then None else Some (replace_prefix_0x (toLowerCase s)))"

definition is_lower_hex :: "string \<Rightarrow> bool" where
  "is_lower_hex s = list_all (\<lambda>c. c \<in> set ''0123456789abcdef'') s"



section \<open>The polling monitor (class \<open>EvmAddressMonitor\<close>)\<close>

subsection \<open>Configuration\<close>

record config =
  watchedEvmAddresses :: "string set"
  addressLabels :: "string \<rightharpoonup> string"
  debug :: bool

definition isWatchedAddress :: "config \<Rightarrow> string \<Rightarrow> bool" where
  "isWatchedAddress cfg evmAddress =
     (if evmAddress = [] then False
      else normalizeEvmAddress evmAddress \<in> watchedEvmAddresses cfg)"

text \<open>\<open>CONFIG.addressLabels[normalized] || null\<close>: an empty label counts as none.\<close>

definition getAddressLabel :: "config \<Rightarrow> string \<Rightarrow> string option" where
  "getAddressLabel cfg evmAddress =
     (case addressLabels cfg (normalizeEvmAddress evmAddress) of
        None \<Rightarrow> None
      | Some l \<Rightarrow> if l = [] then None else Some l)"

subsection \<open>State of a monitor\<close>

text \<open>
  \<open>processedTxIds\<close> is a JavaScript \<open>Set\<close>: it iterates in insertion order, so it is the
  list of its elements in that order. \<open>onErrorCalls\<close> and \<open>debugLog\<close> record what was
  handed to \<open>onError\<close> and what \<open>log\<close> printed. Consensus timestamps are opaque to the
  monitor (it stores them and hands them back to the mirror node); they are modelled as
  natural numbers (nanoseconds).
\<close>

record monitor =
  lastTimestamp :: "nat option"
  processedTxIds :: "string list"
  evmToEntityCache :: "string \<rightharpoonup> string"
  entityToEvmCache :: "string \<rightharpoonup> string"
  totalProcessed :: nat
  matchesFound :: nat
  onErrorCalls :: "string list"
  debugLog :: "string list"

definition new_monitor :: "nat option \<Rightarrow> monitor" where
  "new_monitor startTimestamp =
     \<lparr> lastTimestamp = startTimestamp, processedTxIds = [],
       evmToEntityCache = Map.empty, entityToEvmCache = Map.empty,
       totalProcessed = 0, matchesFound = 0, onErrorCalls = [], debugLog = [] \<rparr>"

text \<open>\<open>log\<close> prints only when \<open>CONFIG.debug\<close> is set.\<close>

definition log :: "config \<Rightarrow> string \<Rightarrow> monitor \<Rightarrow> monitor" where
  "log cfg msg s = (if debug cfg then s\<lparr>debugLog := debugLog s @ [msg]\<rparr> else s)"

subsection \<open>The identity cache\<close>

definition updateCache :: "string \<Rightarrow> string \<Rightarrow> monitor \<Rightarrow> monitor" where
  "updateCache evmAddress entityId s =
     (let normalized = normalizeEvmAddress evmAddress in
      if evmToEntityCache s normalized = None
      then s\<lparr> evmToEntityCache := (evmToEntityCache s)(normalized \<mapsto> entityId),
              entityToEvmCache := (entityToEvmCache s)(entityId \<mapsto> normalized) \<rparr>
      else s)"

text \<open>A sequence of \<open>updateCache\<close> calls, in order.\<close>

fun updateCache_all :: "(string \<times> string) list \<Rightarrow> monitor \<Rightarrow> monitor" where
  "updateCache_all [] s = s"
| "updateCache_all ((a, e) # calls) s = updateCache_all calls (updateCache a e s)"


subsection \<open>What the mirror node and the SDK deliver\<close>

text \<open>
  A transaction of the list endpoint carries the resolved transfer list of the mirror
  node (\<open>tx.transfers\<close>, possibly missing). Amounts are tinybar counts: JSON numbers
  here, \<open>Long\<close> values in the SDK and in protobuf messages. The monitors compare them
  with zero and with each other (by their decimal text) and do no arithmetic on them
  beyond display, so they are integers in the model.
\<close>

record mirror_transfer =
  account :: string
  amount :: int

record mirror_tx =
  transaction_id :: string
  consensus_timestamp :: nat
  transfers :: "mirror_transfer list option"

definition transfers_or_empty :: "mirror_tx \<Rightarrow> mirror_transfer list" where
  "transfers_or_empty tx = (case transfers tx of None \<Rightarrow> [] | Some ts \<Rightarrow> ts)"

text \<open>
  \<open>fetchTransactionDetails\<close> either throws or returns a document whose \<open>transactions\<close>
  may be missing; an entry may carry a base64 \<open>transaction_body\<close>.
\<close>

record tx_details =
  transaction_body :: "string option"

datatype details_response = DetailsThrows string | Details "tx_details list option"

text \<open>
  \<open>Transaction.fromBytes\<close> belongs to the SDK. Its outcome on a body is a parameter of the
  model (\<open>sdk\<close> below): it throws, or yields a transaction that is a
  \<open>TransferTransaction\<close> (with its \<open>hbarTransfers\<close> and memo) or is not.
\<close>

record sdk_account_id =
  aid_evmAddress :: "string option"
  aid_aliasKey :: "string option"
  aid_toString :: string

datatype sdk_transaction =
    FromBytesThrows string
  | OtherTransaction
  | TransferTransaction "(sdk_account_id \<times> int) list" string

type_synonym sdk = "string \<Rightarrow> sdk_transaction"

subsection \<open>Parsing a transaction body\<close>

datatype transfer_dest =
    EVM_ADDRESS string bool "string option"
  | PUBLIC_KEY_ALIAS string
  | ENTITY_ID string

record parsed_transfer =
  amountTinybar :: int
  isCredit :: bool
  dest :: transfer_dest

datatype parse_result = Failure string | Success "parsed_transfer list" string

definition parseTransfer :: "config \<Rightarrow> sdk_account_id \<times> int \<Rightarrow> parsed_transfer" where
  "parseTransfer cfg p =
     (case p of (accountId, amt) \<Rightarrow>
        \<lparr> amountTinybar = amt, isCredit = (amt > 0),
          dest = (case aid_evmAddress accountId of
                    Some a \<Rightarrow> EVM_ADDRESS a (isWatchedAddress cfg a) (getAddressLabel cfg a)
                  | None \<Rightarrow>
                      (case aid_aliasKey accountId of
                         Some k \<Rightarrow> PUBLIC_KEY_ALIAS k
                       | None \<Rightarrow> ENTITY_ID (aid_toString accountId))) \<rparr>)"

fun parseTransfers :: "config \<Rightarrow> (sdk_account_id \<times> int) list \<Rightarrow> parsed_transfer list" where
  "parseTransfers cfg [] = []"
| "parseTransfers cfg (p # ps) = parseTransfer cfg p # parseTransfers cfg ps"

definition parseTransactionBytes :: "config \<Rightarrow> sdk \<Rightarrow> string \<Rightarrow> parse_result" where
  "parseTransactionBytes cfg fromBytes txBytesBase64 =
     (case fromBytes txBytesBase64 of
        FromBytesThrows msg \<Rightarrow> Failure msg
      | OtherTransaction \<Rightarrow> Failure ''Not a transfer transaction''
      | TransferTransaction hbarTransfers memo \<Rightarrow>
          Success (parseTransfers cfg hbarTransfers) memo)"

text \<open>\<open>t.isWatched\<close> is only set on an \<open>EVM_ADDRESS\<close> transfer; elsewhere it is undefined.\<close>

definition isWatched :: "parsed_transfer \<Rightarrow> bool" where
  "isWatched t = (case dest t of EVM_ADDRESS a w l \<Rightarrow> w | _ \<Rightarrow> False)"

definition isEvmAddressType :: "parsed_transfer \<Rightarrow> bool" where
  "isEvmAddressType t = (case dest t of EVM_ADDRESS a w l \<Rightarrow> True | _ \<Rightarrow> False)"

text \<open>
  \<open>t.evmAddress\<close> and \<open>t.label\<close>. They are read on watched transfers only, which are of
  type \<open>EVM_ADDRESS\<close> (lemma \<open>extractWatchedTransfers_evm\<close>).
\<close>

definition evmAddressOf :: "parsed_transfer \<Rightarrow> string" where
  "evmAddressOf t = (case dest t of EVM_ADDRESS a w l \<Rightarrow> a | _ \<Rightarrow> [])"

definition labelOf :: "parsed_transfer \<Rightarrow> string option" where
  "labelOf t = (case dest t of EVM_ADDRESS a w l \<Rightarrow> l | _ \<Rightarrow> None)"

definition extractWatchedTransfers :: "parse_result \<Rightarrow> parsed_transfer list" where
  "extractWatchedTransfers parsedTx =
     (case parsedTx of
        Failure r \<Rightarrow> []
      | Success ts memo \<Rightarrow> filter (\<lambda>t. isWatched t \<and> isCredit t) ts)"

subsection \<open>Matching\<close>

datatype detection = entity_cache | tx_body_parse

record match =
  m_entityId :: "string option"
  m_evmAddress :: string
  m_amount :: int
  m_label :: "string option"
  m_resolvedEntityId :: "string option"
  m_source :: detection

fun checkTransfersForWatchedEntityIds ::
  "config \<Rightarrow> monitor \<Rightarrow> mirror_transfer list \<Rightarrow> match list" where
  "checkTransfersForWatchedEntityIds cfg s [] = []"
| "checkTransfersForWatchedEntityIds cfg s (transfer # rest) =
     (case entityToEvmCache s (account transfer) of
        None \<Rightarrow> checkTransfersForWatchedEntityIds cfg s rest
      | Some evmAddress \<Rightarrow>
          if evmAddress \<noteq> [] \<and> amount transfer > 0
          then \<lparr> m_entityId = Some (account transfer), m_evmAddress = evmAddress,
                 m_amount = amount transfer, m_label = getAddressLabel cfg evmAddress,
                 m_resolvedEntityId = None, m_source = entity_cache \<rparr>
               # checkTransfersForWatchedEntityIds cfg s rest
          else checkTransfersForWatchedEntityIds cfg s rest)"

text \<open>The accounts the resolution loop skips, as the source spells them.\<close>

definition knownAccounts :: "string list" where
  "knownAccounts = [''0. 0.98'', ''0.0.800'', ''0.0.801'']"

text \<open>
  The inner loop over \<open>tx.transfers\<close>: the first entry with a positive amount, an account
  that is neither in the reverse cache nor a known account, and an amount equal to the
  parsed one, is taken as the newly created account.
\<close>

fun findResolvedEntityId :: "monitor \<Rightarrow> int \<Rightarrow> mirror_transfer list \<Rightarrow> string option" where
  "findResolvedEntityId s amt [] = None"
| "findResolvedEntityId s amt (mirrorTransfer # rest) =
     (if amount mirrorTransfer > 0
         \<and> entityToEvmCache s (account mirrorTransfer) = None
         \<and> account mirrorTransfer \<notin> set knownAccounts
         \<and> amount mirrorTransfer = amt
      then Some (account mirrorTransfer)
      else findResolvedEntityId s amt rest)"

definition alreadyFound :: "match list \<Rightarrow> parsed_transfer \<Rightarrow> bool" where
  "alreadyFound entityMatches evmTransfer =
     list_ex (\<lambda>m. normalizeEvmAddress (m_evmAddress m)
                   = normalizeEvmAddress (evmAddressOf evmTransfer)) entityMatches"

text \<open>
  The loop over the watched transfers of the parsed body. It threads the monitor: a
  resolved entity id is written to the cache before the match is recorded.
\<close>

fun matchWatchedEvmTransfers ::
  "mirror_tx \<Rightarrow> match list \<Rightarrow> parsed_transfer list \<Rightarrow> monitor \<Rightarrow> monitor \<times> match list" where
  "matchWatchedEvmTransfers tx entityMatches [] s = (s, [])"
| "matchWatchedEvmTransfers tx entityMatches (evmTransfer # rest) s =
     (if alreadyFound entityMatches evmTransfer
      then matchWatchedEvmTransfers tx entityMatches rest s
      else
        (let resolvedEntityId =
               findResolvedEntityId s (amountTinybar evmTransfer) (transfers_or_empty tx);
             s1 = (case resolvedEntityId of
                     None \<Rightarrow> s
                   | Some e \<Rightarrow> updateCache (evmAddressOf evmTransfer) e s)
         in case matchWatchedEvmTransfers tx entityMatches rest s1 of
              (s2, ms) \<Rightarrow>
                (s2, \<lparr> m_entityId = None, m_evmAddress = evmAddressOf evmTransfer,
                       m_amount = amountTinybar evmTransfer, m_label = labelOf evmTransfer,
                       m_resolvedEntityId = resolvedEntityId,
                       m_source = tx_body_parse \<rparr> # ms)))"

subsection \<open>Reporting\<close>

text \<open>
  What \<open>onTransferReceived\<close> is called with. The display strings \<open>amountHbar\<close> and \<open>memo\<close>
  are left out; \<open>ev_amount\<close> is the number printed in \<open>amount\<close>.
\<close>

record transfer_event =
  ev_evmAddress :: string
  ev_label :: "string option"
  ev_amount :: int
  ev_transactionId :: string
  ev_consensusTimestamp :: nat
  ev_resolvedEntityId :: "string option"
  senderUsedEvmAddress :: bool
  detectionMethod :: detection

definition usedEvmForThis :: "parsed_transfer list option \<Rightarrow> match \<Rightarrow> bool" where
  "usedEvmForThis parsedTransfers m =
     (case parsedTransfers of
        None \<Rightarrow> False
      | Some ts \<Rightarrow>
          list_ex (\<lambda>t. isEvmAddressType t
                       \<and> normalizeEvmAddress (evmAddressOf t) = normalizeEvmAddress (m_evmAddress m)
                       \<and> isCredit t) ts)"

text \<open>\<open>match.resolvedEntityId || match.entityId\<close>.\<close>

definition resolvedOrEntityId :: "match \<Rightarrow> string option" where
  "resolvedOrEntityId m =
     (case m_resolvedEntityId m of
        None \<Rightarrow> m_entityId m
      | Some r \<Rightarrow> if r = [] then m_entityId m else Some r)"

definition report :: "mirror_tx \<Rightarrow> parsed_transfer list option \<Rightarrow> match \<Rightarrow> transfer_event" where
  "report tx parsedTransfers m =
     \<lparr> ev_evmAddress = m_evmAddress m, ev_label = m_label m, ev_amount = m_amount m,
       ev_transactionId = transaction_id tx,
       ev_consensusTimestamp = consensus_timestamp tx,
       ev_resolvedEntityId = resolvedOrEntityId m,
       senderUsedEvmAddress = usedEvmForThis parsedTransfers m,
       detectionMethod = m_source m \<rparr>"

subsection \<open>Processing one transaction\<close>

text \<open>
  The seen-set is cut to its last 5000 entries once it holds more than 10000.
\<close>

definition limitCacheSize :: "string list \<Rightarrow> string list" where
  "limitCacheSize entries =
     (if length entries > 10000 then drop (length entries - 5000) entries else entries)"

text \<open>
  The part of \<open>processTransaction\<close> inside \<open>try\<close>: the detail fetch, the parse and the
  loop over the watched transfers. It yields the monitor, the matches of the body and the
  parsed transfers (if the body was parsed). The only statement that can throw is the
  fetch; \<open>catch\<close> hands its message to \<open>log\<close>.
\<close>

definition matchTransactionBody ::
  "config \<Rightarrow> sdk \<Rightarrow> mirror_tx \<Rightarrow> details_response \<Rightarrow> match list \<Rightarrow> monitor
     \<Rightarrow> monitor \<times> match list \<times> parsed_transfer list option" where
  "matchTransactionBody cfg fromBytes tx details entityMatches s =
     (case details of
        DetailsThrows msg \<Rightarrow>
          (log cfg (''Error fetching details for '' @ transaction_id tx @ '': '' @ msg) s,
           [], None)
      | Details None \<Rightarrow> (s, [], None)
      | Details (Some []) \<Rightarrow> (s, [], None)
      | Details (Some (txData # others)) \<Rightarrow>
          (case transaction_body txData of
             None \<Rightarrow> (s, [], None)
           | Some body \<Rightarrow>
               if body = [] then (s, [], None)
               else
                 (case parseTransactionBytes cfg fromBytes body of
                    Failure r \<Rightarrow> (s, [], None)
                  | Success ts memo \<Rightarrow>
                      (case matchWatchedEvmTransfers tx entityMatches
                              (extractWatchedTransfers (Success ts memo)) s of
                         (s1, txBodyMatches) \<Rightarrow> (s1, txBodyMatches, Some ts)))))"

text \<open>
  \<open>processTransaction\<close> returns the monitor and, when matches were found, the identifier
  printed in the \<open>Match found\<close> line with the events handed to \<open>onTransferReceived\<close>, in
  order.
\<close>

type_synonym match_report = "string \<times> transfer_event list"

definition processTransaction ::
  "config \<Rightarrow> sdk \<Rightarrow> mirror_tx \<Rightarrow> details_response \<Rightarrow> monitor
     \<Rightarrow> monitor \<times> match_report option" where
  "processTransaction cfg fromBytes tx details s =
     (let txId = transaction_id tx in
      if txId \<in> set (processedTxIds s) then (s, None)
      else
        (let s1 = s\<lparr> processedTxIds := limitCacheSize (processedTxIds s @ [txId]),
                     totalProcessed := totalProcessed s + 1 \<rparr>;
             entityMatches = checkTransfersForWatchedEntityIds cfg s1 (transfers_or_empty tx)
         in case matchTransactionBody cfg fromBytes tx details entityMatches s1 of
              (s2, txBodyMatches, parsedTransfers) \<Rightarrow>
                (let allMatches = entityMatches @ txBodyMatches in
                 if allMatches = [] then (s2, None)
                 else (s2\<lparr>matchesFound := matchesFound s2 + length allMatches\<rparr>,
                       Some (txId, map (report tx parsedTransfers) allMatches)))))"

subsection \<open>Polling\<close>

text \<open>
  A cycle fetches a page. Every listed transaction is paired with the response that
  \<open>fetchTransactionDetails\<close> gives when \<open>processTransaction\<close> asks for it.
\<close>

datatype fetch_result =
    FetchThrows string
  | Fetched "(mirror_tx \<times> details_response) list option"

text \<open>The lower bound sent with the request: \<open>timestamp=gt:lastTimestamp\<close>.\<close>

definition requestTimestamp :: "monitor \<Rightarrow> nat option" where
  "requestTimestamp s = lastTimestamp s"

fun processTransactions ::
  "config \<Rightarrow> sdk \<Rightarrow> (mirror_tx \<times> details_response) list \<Rightarrow> monitor
     \<Rightarrow> monitor \<times> match_report list" where
  "processTransactions cfg fromBytes [] s = (s, [])"
| "processTransactions cfg fromBytes ((tx, details) # rest) s =
     (case processTransaction cfg fromBytes tx details s of
        (s1, r) \<Rightarrow>
          (case processTransactions cfg fromBytes rest
                  (s1\<lparr>lastTimestamp := Some (consensus_timestamp tx)\<rparr>) of
             (s2, rs) \<Rightarrow> (s2, (case r of None \<Rightarrow> rs | Some x \<Rightarrow> x # rs))))"

definition poll ::
  "config \<Rightarrow> sdk \<Rightarrow> fetch_result \<Rightarrow> monitor \<Rightarrow> monitor \<times> match_report list" where
  "poll cfg fromBytes fetched s =
     (case fetched of
        FetchThrows msg \<Rightarrow> (s\<lparr>onErrorCalls := onErrorCalls s @ [msg]\<rparr>, [])
      | Fetched None \<Rightarrow> (s, [])
      | Fetched (Some txs) \<Rightarrow> processTransactions cfg fromBytes txs s)"

text \<open>The polling loop: one \<open>poll\<close> after the other.\<close>

fun polls ::
  "config \<Rightarrow> sdk \<Rightarrow> fetch_result list \<Rightarrow> monitor \<Rightarrow> monitor \<times> match_report list" where
  "polls cfg fromBytes [] s = (s, [])"
| "polls cfg fromBytes (fetched # later) s =
     (case poll cfg fromBytes fetched s of
        (s1, rs) \<Rightarrow>
          (case polls cfg fromBytes later s1 of (s2, rs') \<Rightarrow> (s2, rs @ rs')))"


section \<open>The database monitor\<close>

subsection \<open>Decoded protobuf messages\<close>

text \<open>
  The protobuf classes come from a library; what they decode is a parameter of the model
  (\<open>proto\<close> below). A field is \<open>None\<close> where the decoded object has no such property
  (the source probes several historical names for one field); byte fields that exist may
  be empty.
\<close>

record account_id_pb =
  acc_alias :: "bytes option"
  accountNum :: "int option"

record account_amount =
  aa_amount :: "int option"
  aa_accountID :: "account_id_pb option"
  aa_accountId :: "account_id_pb option"
  aa_account :: "account_id_pb option"

record transfer_list_pb =
  accountAmounts :: "account_amount list option"

record crypto_transfer_pb =
  ct_transfers :: "transfer_list_pb option"

record ethereum_transaction_pb =
  ethereumData :: "bytes option"
  ethereum_data :: "bytes option"
  ethereumBytes :: "bytes option"

record transaction_body_pb =
  cryptoTransfer :: "crypto_transfer_pb option"
  ethereumTransaction :: "ethereum_transaction_pb option"
  tb_memo :: string

record signed_transaction_pb =
  st_bodyBytes :: "bytes option"
  st_body :: "bytes option"

record transaction_pb =
  signedTransactionBytes :: "bytes option"
  signedTransaction :: "bytes option"
  transactionBytes :: "bytes option"
  transaction_bytes :: "bytes option"
  t_bodyBytes :: "bytes option"
  t_body :: "transaction_body_pb option"

text \<open>The three \<open>decode\<close> functions; \<open>Inl\<close> is a thrown error with its message.\<close>

record proto =
  Transaction_decode :: "bytes \<Rightarrow> string + transaction_pb"
  SignedTransaction_decode :: "bytes \<Rightarrow> string + signed_transaction_pb"
  TransactionBody_decode :: "bytes \<Rightarrow> string + transaction_body_pb"

text \<open>\<open>a || b || ... || null\<close> on objects: the first one that is there.\<close>

fun first_present :: "'a option list \<Rightarrow> 'a option" where
  "first_present [] = None"
| "first_present (None # xs) = first_present xs"
| "first_present (Some x # xs) = Some x"

subsection \<open>The protobuf parser\<close>

text \<open>
  The body of \<open>try\<close> in \<open>ProtoParser.parseTransactionBytes\<close>: \<open>Inl\<close> when a \<open>decode\<close>
  throws, otherwise the transaction body found, if any.
\<close>

definition decodeLayers :: "proto \<Rightarrow> bytes \<Rightarrow> string + transaction_body_pb option" where
  "decodeLayers P txBytes =
     (case Transaction_decode P txBytes of
        Inl err \<Rightarrow> Inl err
      | Inr transaction \<Rightarrow>
          (case first_present [signedTransactionBytes transaction, signedTransaction transaction,
                               transactionBytes transaction, transaction_bytes transaction] of
             Some signedBytes \<Rightarrow>
               if signedBytes \<noteq> [] then
                 (case SignedTransaction_decode P signedBytes of
                    Inl err \<Rightarrow> Inl err
                  | Inr signedTx \<Rightarrow>
                      (case first_present [st_bodyBytes signedTx, st_body signedTx] of
                         None \<Rightarrow> Inr None
                       | Some bodyBytes \<Rightarrow>
                           if bodyBytes \<noteq> [] then
                             (case TransactionBody_decode P bodyBytes of
                                Inl err \<Rightarrow> Inl err
                              | Inr txBody \<Rightarrow> Inr (Some txBody))
                           else Inr None))
               else
                 (case t_bodyBytes transaction of
                    Some bodyBytes \<Rightarrow>
                      if bodyBytes \<noteq> [] then
                        (case TransactionBody_decode P bodyBytes of
                           Inl err \<Rightarrow> Inl err
                         | Inr txBody \<Rightarrow> Inr (Some txBody))
                      else Inr (t_body transaction)
                  | None \<Rightarrow> Inr (t_body transaction))
           | None \<Rightarrow>
               (case t_bodyBytes transaction of
                  Some bodyBytes \<Rightarrow>
                    if bodyBytes \<noteq> [] then
                      (case TransactionBody_decode P bodyBytes of
                         Inl err \<Rightarrow> Inl err
                       | Inr txBody \<Rightarrow> Inr (Some txBody))
                    else Inr (t_body transaction)
                | None \<Rightarrow> Inr (t_body transaction))))"

text \<open>
  \<open>parseTransactionBytes\<close>: \<open>null\<close> (\<open>None\<close>) for missing or empty bytes, for a thrown error
  (\<open>catch (err) { return null; }\<close>) and when no body was found; \<open>{ txBody }\<close> otherwise.
\<close>

definition parseTransactionBytes_db :: "proto \<Rightarrow> bytes option \<Rightarrow> transaction_body_pb option" where
  "parseTransactionBytes_db P txBytes =
     (case txBytes of
        None \<Rightarrow> None
      | Some bs \<Rightarrow>
          if bs = [] then None
          else (case decodeLayers P bs of Inl err \<Rightarrow> None | Inr txBody \<Rightarrow> txBody))"

subsection \<open>Ethereum payloads\<close>

text \<open>
  \<open>ethers\<close> is optional: \<open>None\<close> when it is not installed. Its \<open>parseTransaction\<close> yields
  \<open>to\<close> (if any) and the value as text, or throws (\<open>None\<close>).
\<close>

type_synonym ethers = "(bytes \<Rightarrow> (string option \<times> string) option) option"

record ethereum_info =
  eth_to :: "string option"
  eth_value :: string

definition decodeEthereumTx :: "ethers \<Rightarrow> bytes \<Rightarrow> ethereum_info option" where
  "decodeEthereumTx eth ethereumData_bytes =
     (if ethereumData_bytes = [] then None
      else case eth of
             None \<Rightarrow> None
           | Some parseTransaction \<Rightarrow>
               (case parseTransaction ethereumData_bytes of
                  None \<Rightarrow> None
                | Some (to, v) \<Rightarrow>
                    Some \<lparr> eth_to = (case to of None \<Rightarrow> None
                                     | Some a \<Rightarrow> normalizeEvmAddress_db (Text a)),
                           eth_value = v \<rparr>))"

subsection \<open>Rows, events and the scan\<close>

record config_db =
  db_watchedEvmAddresses :: "string set"
  db_addressLabels :: "string \<rightharpoonup> string"

record row =
  row_consensus_timestamp :: "nat option"
  row_transaction_bytes :: "bytes option"
  row_transaction_hash :: "bytes option"

datatype transaction_type = CRYPTOTRANSFER | ETHEREUMTRANSACTION

record event_db =
  dbe_evmAddress :: string
  dbe_label :: "string option"
  dbe_amountTinybar :: "int option"
  dbe_ethereumValueWei :: "string option"
  dbe_transactionHash :: "string option"
  dbe_consensusTimestamp :: "nat option"
  dbe_senderUsedEvmAddress :: bool
  dbe_transactionType :: transaction_type
  dbe_memo :: "string option"

definition bufferToHexMaybe :: "bytes option \<Rightarrow> string option" where
  "bufferToHexMaybe buf = (case buf of None \<Rightarrow> None | Some b \<Rightarrow> Some (toHex b))"

definition label_db :: "config_db \<Rightarrow> string \<Rightarrow> string option" where
  "label_db cfg evm =
     (case db_addressLabels cfg evm of
        None \<Rightarrow> None
      | Some l \<Rightarrow> if l = [] then None else Some l)"

definition memo_or_null :: "transaction_body_pb \<Rightarrow> string option" where
  "memo_or_null txBody = (if tb_memo txBody = [] then None else Some (tb_memo txBody))"

text \<open>\<open>Long.fromValue(aa.amount || 0)\<close> and \<open>aa.accountID || aa.accountId || aa.account || null\<close>.\<close>

definition amount_or_zero :: "account_amount \<Rightarrow> int" where
  "amount_or_zero aa = (case aa_amount aa of None \<Rightarrow> 0 | Some a \<Rightarrow> a)"

definition account_of :: "account_amount \<Rightarrow> account_id_pb option" where
  "account_of aa = first_present [aa_accountID aa, aa_accountId aa, aa_account aa]"

text \<open>
  The head of the loop over \<open>accountAmounts\<close>: an entry whose amount is not greater than
  zero is left (\<open>continue\<close>), and so is one without an account id. What passes is the
  amount and the destination that the rest of the loop body looks at.
\<close>

definition creditDestination :: "account_amount \<Rightarrow> (int \<times> account_id_pb) option" where
  "creditDestination aa =
     (let amt = amount_or_zero aa in
      if \<not> amt > 0 then None
      else case account_of aa of
             None \<Rightarrow> None
           | Some accountId \<Rightarrow> Some (amt, accountId))"

text \<open>The rest of the loop body: the event printed for the entry, if any.\<close>

definition scanAccountAmount ::
  "config_db \<Rightarrow> row \<Rightarrow> transaction_body_pb \<Rightarrow> account_amount \<Rightarrow> event_db option" where
  "scanAccountAmount cfg r txBody aa =
     (case creditDestination aa of
        None \<Rightarrow> None
      | Some (amt, accountId) \<Rightarrow>
          (case acc_alias accountId of
             None \<Rightarrow> None
           | Some al \<Rightarrow>
               if length al = 20 then
                 (case normalizeEvmAddress_db (Text (toHex al)) of
                    None \<Rightarrow> None
                  | Some evm \<Rightarrow>
                      if evm \<in> db_watchedEvmAddresses cfg
                      then Some \<lparr> dbe_evmAddress = evm, dbe_label = label_db cfg evm,
                                  dbe_amountTinybar = Some amt, dbe_ethereumValueWei = None,
                                  dbe_transactionHash = bufferToHexMaybe (row_transaction_hash r),
                                  dbe_consensusTimestamp = row_consensus_timestamp r,
                                  dbe_senderUsedEvmAddress = True,
                                  dbe_transactionType = CRYPTOTRANSFER,
                                  dbe_memo = memo_or_null txBody \<rparr>
                      else None)
               else None))"

fun scanAccountAmounts ::
  "config_db \<Rightarrow> row \<Rightarrow> transaction_body_pb \<Rightarrow> account_amount list \<Rightarrow> event_db list" where
  "scanAccountAmounts cfg r txBody [] = []"
| "scanAccountAmounts cfg r txBody (aa # aas) =
     (case scanAccountAmount cfg r txBody aa of
        None \<Rightarrow> scanAccountAmounts cfg r txBody aas
      | Some e \<Rightarrow> e # scanAccountAmounts cfg r txBody aas)"

definition scanCryptoTransfer ::
  "config_db \<Rightarrow> row \<Rightarrow> transaction_body_pb \<Rightarrow> event_db list" where
  "scanCryptoTransfer cfg r txBody =
     (case cryptoTransfer txBody of
        None \<Rightarrow> []
      | Some ct \<Rightarrow>
          (case ct_transfers ct of
             None \<Rightarrow> []
           | Some tlist \<Rightarrow>
               (case accountAmounts tlist of
                  None \<Rightarrow> []
                | Some aas \<Rightarrow> scanAccountAmounts cfg r txBody aas)))"

definition scanEthereumTransaction ::
  "config_db \<Rightarrow> ethers \<Rightarrow> row \<Rightarrow> transaction_body_pb \<Rightarrow> event_db list" where
  "scanEthereumTransaction cfg eth r txBody =
     (case ethereumTransaction txBody of
        None \<Rightarrow> []
      | Some e \<Rightarrow>
          (case first_present [ethereumData e, ethereum_data e, ethereumBytes e] of
             None \<Rightarrow> []
           | Some ethData \<Rightarrow>
               (case decodeEthereumTx eth ethData of
                  None \<Rightarrow> []
                | Some ethInfo \<Rightarrow>
                    (case eth_to ethInfo of
                       None \<Rightarrow> []
                     | Some to \<Rightarrow>
                         (case normalizeEvmAddress_db (Text to) of
                            None \<Rightarrow> []
                          | Some evm \<Rightarrow>
                              if evm \<in> db_watchedEvmAddresses cfg
                              then [\<lparr> dbe_evmAddress = evm, dbe_label = label_db cfg evm,
                                      dbe_amountTinybar = None,
                                      dbe_ethereumValueWei = Some (eth_value ethInfo),
                                      dbe_transactionHash =
                                        bufferToHexMaybe (row_transaction_hash r),
                                      dbe_consensusTimestamp = row_consensus_timestamp r,
                                      dbe_senderUsedEvmAddress = True,
                                      dbe_transactionType = ETHEREUMTRANSACTION,
                                      dbe_memo = memo_or_null txBody \<rparr>]
                              else [])))))"

text \<open>
  The state of \<open>main\<close>: the cursor, the counters and what \<open>console.error\<close> printed.
\<close>

record scanner =
  lastConsensusTs :: nat
  stat_polls :: nat
  stat_scanned :: nat
  stat_matches :: nat
  stat_cryptoTransfers :: nat
  stat_ethereumTransactions :: nat
  pollErrors :: "string list"

text \<open>One turn of the loop over the rows of a page.\<close>

definition scanRow ::
  "config_db \<Rightarrow> proto \<Rightarrow> ethers \<Rightarrow> row \<Rightarrow> scanner \<Rightarrow> scanner \<times> event_db list" where
  "scanRow cfg P eth r s =
     (let s1 = s\<lparr> stat_scanned := stat_scanned s + 1,
                  lastConsensusTs := (case row_consensus_timestamp r of
                                        None \<Rightarrow> lastConsensusTs s
                                      | Some t \<Rightarrow> t) \<rparr>
      in case parseTransactionBytes_db P (row_transaction_bytes r) of
           None \<Rightarrow> (s1, [])
         | Some txBody \<Rightarrow>
             (let cs = scanCryptoTransfer cfg r txBody;
                  es = scanEthereumTransaction cfg eth r txBody
              in (s1\<lparr> stat_matches := stat_matches s1 + length cs + length es,
                      stat_cryptoTransfers := stat_cryptoTransfers s1 + length cs,
                      stat_ethereumTransactions := stat_ethereumTransactions s1 + length es \<rparr>,
                  cs @ es)))"

fun scanRows ::
  "config_db \<Rightarrow> proto \<Rightarrow> ethers \<Rightarrow> row list \<Rightarrow> scanner \<Rightarrow> scanner \<times> event_db list" where
  "scanRows cfg P eth [] s = (s, [])"
| "scanRows cfg P eth (r # rs) s =
     (case scanRow cfg P eth r s of
        (s1, es) \<Rightarrow> (case scanRows cfg P eth rs s1 of (s2, es') \<Rightarrow> (s2, es @ es')))"

datatype query_result = QueryThrows string | Rows "row list option"

definition pollOnce ::
  "config_db \<Rightarrow> proto \<Rightarrow> ethers \<Rightarrow> query_result \<Rightarrow> scanner \<Rightarrow> scanner \<times> event_db list" where
  "pollOnce cfg P eth res s =
     (let s0 = s\<lparr>stat_polls := stat_polls s + 1\<rparr> in
      case res of
        QueryThrows msg \<Rightarrow> (s0\<lparr>pollErrors := pollErrors s0 @ [msg]\<rparr>, [])
      | Rows None \<Rightarrow> (s0, [])
      | Rows (Some rs) \<Rightarrow> scanRows cfg P eth rs s0)"

text \<open>The lower bound of the next query: \<open>consensus_timestamp > $1\<close>.\<close>

definition queryLowerBound :: "scanner \<Rightarrow> nat" where
  "queryLowerBound s = lastConsensusTs s"



section \<open>Start-up values\<close>

text \<open>The watch list and labels that both \<open>CONFIG\<close> objects start with.\<close>

definition wallet_A :: string where
  "wallet_A = ''8f31e9fa14266c5da7f63bfc96811e08b7c09183''"

definition default_config :: config where
  "default_config =
     \<lparr> watchedEvmAddresses = {wallet_A}, addressLabels = [wallet_A \<mapsto> ''Wallet A''],
       debug = False \<rparr>"

definition default_config_db :: config_db where
  "default_config_db =
     \<lparr> db_watchedEvmAddresses = {wallet_A}, db_addressLabels = [wallet_A \<mapsto> ''Wallet A''] \<rparr>"

text \<open>The state of \<open>main\<close> of the database monitor before the first poll.\<close>

definition new_scanner :: "nat \<Rightarrow> scanner" where
  "new_scanner start =
     \<lparr> lastConsensusTs = start, stat_polls = 0, stat_scanned = 0, stat_matches = 0,
       stat_cryptoTransfers = 0, stat_ethereumTransactions = 0, pollErrors = [] \<rparr>"

text \<open>A protobuf library on which every \<open>decode\<close> throws, and a transaction without transfers.\<close>

definition failing_proto :: proto where
  "failing_proto =
     \<lparr> Transaction_decode = (\<lambda>b. Inl ''index out of range''),
       SignedTransaction_decode = (\<lambda>b. Inl ''index out of range''),
       TransactionBody_decode = (\<lambda>b. Inl ''index out of range'') \<rparr>"

text \<open>The 20 bytes of Wallet A, and an entry of a transfer list for an account.\<close>

definition wallet_A_bytes :: bytes where
  "wallet_A_bytes =
     [0x8f, 0x31, 0xe9, 0xfa, 0x14, 0x26, 0x6c, 0x5d, 0xa7, 0xf6,
      0x3b, 0xfc, 0x96, 0x81, 0x1e, 0x08, 0xb7, 0xc0, 0x91, 0x83]"

definition credit_entry :: "account_id_pb \<Rightarrow> int \<Rightarrow> account_amount" where
  "credit_entry acc amt =
     \<lparr> aa_amount = Some amt, aa_accountID = Some acc, aa_accountId = None, aa_account = None \<rparr>"

text \<open>
  The account id that carries the alias of Wallet A, a transaction body without content,
  and a transfer of 1000000 tinybar to the ledger identifier \<open>0.0.7\<close>, as the SDK decodes it
  and as the mirror node lists it.
\<close>

definition wallet_A_account :: account_id_pb where
  "wallet_A_account = \<lparr> acc_alias = Some wallet_A_bytes, accountNum = None \<rparr>"

definition empty_body :: transaction_body_pb where
  "empty_body = \<lparr> cryptoTransfer = None, ethereumTransaction = None, tb_memo = [] \<rparr>"



text \<open>
  A protobuf library on which the two outer layers decode and the body does not.
\<close>

definition body_failing_proto :: proto where
  "body_failing_proto =
     \<lparr> Transaction_decode =
         (\<lambda>b. Inr \<lparr> signedTransactionBytes = Some [10, 2, 8, 1], signedTransaction = None,
                     transactionBytes = None, transaction_bytes = None,
                     t_bodyBytes = None, t_body = None \<rparr>),
       SignedTransaction_decode = (\<lambda>b. Inr \<lparr> st_bodyBytes = Some [8, 1], st_body = None \<rparr>),
       TransactionBody_decode = (\<lambda>b. Inl ''invalid wire type 7 at offset 1'') \<rparr>"

definition plain_tx :: "string \<Rightarrow> nat \<Rightarrow> mirror_tx" where
  "plain_tx txId ts = \<lparr> transaction_id = txId, consensus_timestamp = ts, transfers = None \<rparr>"

definition plain_row :: "nat option \<Rightarrow> row" where
  "plain_row ts =
     \<lparr> row_consensus_timestamp = ts, row_transaction_bytes = None,
       row_transaction_hash = None \<rparr>"


section \<open>Transactions and feeds used as examples\<close>

text \<open>
  A transfer of 1000000 tinybar from account \<open>0.0.1001\<close> to the raw alias of Wallet A, as
  the SDK decodes it, and a detail response that carries a body.
\<close>

definition wallet_sdk :: sdk where
  "wallet_sdk body =
     TransferTransaction
       [(\<lparr>aid_evmAddress = None, aid_aliasKey = None, aid_toString = ''0.0.1001''\<rparr>, - 1000000),
        (\<lparr>aid_evmAddress = Some wallet_A, aid_aliasKey = None, aid_toString = ''0.0.0''\<rparr>,
         1000000)] []"

definition body_details :: details_response where
  "body_details = Details (Some [\<lparr>transaction_body = Some ''CgQQBxgL''\<rparr>])"

text \<open>
  The same transfer as the mirror node lists it when the alias did not exist before: the
  account \<open>0.0.5005\<close> was created for it, and the payer also paid fees.
\<close>

definition lazy_create_tx :: mirror_tx where
  "lazy_create_tx =
     \<lparr> transaction_id = ''0.0.1001-1700000000-000000001'', consensus_timestamp = 7,
       transfers = Some [\<lparr>account = ''0.0.1001'', amount = - 1050000\<rparr>,
                         \<lparr>account = ''0.0.3'', amount = 20000\<rparr>,
                         \<lparr>account = ''0.0.98'', amount = 30000\<rparr>,
                         \<lparr>account = ''0.0.5005'', amount = 1000000\<rparr>] \<rparr>"








section \<open>Feeds and cursors\<close>


definition page_timestamps :: "fetch_result \<Rightarrow> nat list" where
  "page_timestamps f =
     (case f of FetchThrows msg \<Rightarrow> [] | Fetched None \<Rightarrow> []
      | Fetched (Some txs) \<Rightarrow> map (\<lambda>p. consensus_timestamp (fst p)) txs)"

definition feed_timestamps :: "fetch_result list \<Rightarrow> nat list" where
  "feed_timestamps fs = concat (map page_timestamps fs)"






section \<open>Emissions\<close>



text \<open>
  The reverse cache holds watched addresses only. (This is so at start-up: the cache is
  filled from the watch list.)
\<close>

definition cache_watched :: "config \<Rightarrow> monitor \<Rightarrow> bool" where
  "cache_watched cfg s =
     (\<forall>e a. entityToEvmCache s e = Some a \<longrightarrow> a \<in> watchedEvmAddresses cfg)"


section \<open>Address normalisation\<close>


lemma toLowerCase_lower_hex_table:
  "list_all (\<lambda>c. toLowerCase_char c = c) ''0123456789abcdef''"
  by (simp add: toLowerCase_char_def)


lemma toLowerCase_char_lower_hex:
  "c \<in> set ''0123456789abcdef'' \<Longrightarrow> toLowerCase_char c = c"
  using toLowerCase_lower_hex_table unfolding list_all_iff by blast


lemma toLowerCase_lower_hex: "is_lower_hex h \<Longrightarrow> toLowerCase h = h"
  unfolding is_lower_hex_def toLowerCase_def list_all_iff
  using toLowerCase_char_lower_hex by (simp add: map_idI)

lemma x_not_lower_hex: "CHR ''x'' \<notin> set ''0123456789abcdef''"
  by simp

lemma lower_hex_no_x: "is_lower_hex h \<Longrightarrow> CHR ''x'' \<notin> set h"
  unfolding is_lower_hex_def list_all_iff using x_not_lower_hex by blast


lemma replace_prefix_0x_no_x: "CHR ''x'' \<notin> set s \<Longrightarrow> replace_prefix_0x s = s"
  by (cases s rule: replace_prefix_0x.cases) auto





lemma hex_digit_lower: "hex_digit n \<in> set ''0123456789abcdef''"
proof -
  have "n mod 16 < length ''0123456789abcdef''" by simp
  then show ?thesis unfolding hex_digit_def by (rule nth_mem)
qed

lemma hex_byte_lower: "c \<in> set (hex_byte b) \<Longrightarrow> c \<in> set ''0123456789abcdef''"
proof -
  assume "c \<in> set (hex_byte b)"
  then have "c = hex_digit (unat b div 16) \<or> c = hex_digit (unat b mod 16)"
    by (simp add: hex_byte_def)
  then show ?thesis using hex_digit_lower by metis
qed

lemma toHex_lower_hex: "is_lower_hex (toHex bs)"
  unfolding is_lower_hex_def toHex_def list_all_iff
  using hex_byte_lower by (auto simp del: set_simps)

lemma length_toHex: "length (toHex bs) = 2 * length bs"
  unfolding toHex_def by (induction bs) (simp_all add: hex_byte_def)






section \<open>Frame lemmas for the polling monitor\<close>

lemma log_frame [simp]:
  "evmToEntityCache (log cfg msg s) = evmToEntityCache s"
  "entityToEvmCache (log cfg msg s) = entityToEvmCache s"
  "processedTxIds (log cfg msg s) = processedTxIds s"
  "lastTimestamp (log cfg msg s) = lastTimestamp s"
  "totalProcessed (log cfg msg s) = totalProcessed s"
  "matchesFound (log cfg msg s) = matchesFound s"
  "onErrorCalls (log cfg msg s) = onErrorCalls s"
  by (simp_all add: log_def)

lemma updateCache_frame [simp]:
  "processedTxIds (updateCache a e s) = processedTxIds s"
  "lastTimestamp (updateCache a e s) = lastTimestamp s"
  "totalProcessed (updateCache a e s) = totalProcessed s"
  "matchesFound (updateCache a e s) = matchesFound s"
  "onErrorCalls (updateCache a e s) = onErrorCalls s"
  "debugLog (updateCache a e s) = debugLog s"
  by (simp_all add: updateCache_def Let_def)


section \<open>Binding stability\<close>

lemma updateCache_bound_noop:
  "evmToEntityCache s (normalizeEvmAddress a) = Some e \<Longrightarrow> updateCache a e' s = s"
  by (simp add: updateCache_def)

lemma updateCache_keeps_binding:
  "evmToEntityCache s k = Some e \<Longrightarrow> evmToEntityCache (updateCache a e' s) k = Some e"
  by (auto simp: updateCache_def Let_def)

lemma updateCache_all_keeps_binding:
  "evmToEntityCache s k = Some e \<Longrightarrow> evmToEntityCache (updateCache_all calls s) k = Some e"
  by (induction calls arbitrary: s) (auto simp: updateCache_keeps_binding)

lemma matchWatched_keeps_binding:
  "matchWatchedEvmTransfers tx ems ts s = (s', ms) \<Longrightarrow> evmToEntityCache s k = Some e
     \<Longrightarrow> evmToEntityCache s' k = Some e"
proof (induction ts arbitrary: s s' ms)
  case Nil
  then show ?case by simp
next
  case (Cons t ts)
  show ?case
  proof (cases "alreadyFound ems t")
    case True
    with Cons show ?thesis by simp
  next
    case False
    let ?r = "findResolvedEntityId s (amountTinybar t) (transfers_or_empty tx)"
    let ?s1 = "case ?r of None \<Rightarrow> s | Some x \<Rightarrow> updateCache (evmAddressOf t) x s"
    have b: "evmToEntityCache ?s1 k = Some e"
      using Cons.prems(2) by (cases ?r) (simp_all add: updateCache_keeps_binding)
    obtain s2 ms2 where r: "matchWatchedEvmTransfers tx ems ts ?s1 = (s2, ms2)"
      by fastforce
    have "s' = s2" using Cons.prems(1) False r by (simp add: Let_def)
    with Cons.IH[OF r b] show ?thesis by simp
  qed
qed

lemma matchTransactionBody_keeps_binding:
  "matchTransactionBody cfg sdk tx d ems s = (s', ms, pt) \<Longrightarrow> evmToEntityCache s k = Some e
     \<Longrightarrow> evmToEntityCache s' k = Some e"
  by (auto simp: matchTransactionBody_def
      split: details_response.splits option.splits list.splits parse_result.splits
        prod.splits if_splits
      dest: matchWatched_keeps_binding)

lemma processTransaction_keeps_binding:
  "processTransaction cfg sdk tx d s = (s', r) \<Longrightarrow> evmToEntityCache s k = Some e
     \<Longrightarrow> evmToEntityCache s' k = Some e"
  by (auto simp: processTransaction_def Let_def split: prod.splits if_splits
      dest!: matchTransactionBody_keeps_binding[where k = k and e = e])

lemma processTransactions_keeps_binding:
  "processTransactions cfg sdk txs s = (s', rs) \<Longrightarrow> evmToEntityCache s k = Some e
     \<Longrightarrow> evmToEntityCache s' k = Some e"
proof (induction txs arbitrary: s s' rs)
  case Nil
  then show ?case by simp
next
  case (Cons p txs)
  obtain tx d where p: "p = (tx, d)" by (cases p)
  obtain s1 r where s1: "processTransaction cfg sdk tx d s = (s1, r)" by fastforce
  let ?s1 = "s1\<lparr>lastTimestamp := Some (consensus_timestamp tx)\<rparr>"
  obtain s2 rs2 where s2: "processTransactions cfg sdk txs ?s1 = (s2, rs2)" by fastforce
  have "evmToEntityCache ?s1 k = Some e"
    using processTransaction_keeps_binding[OF s1 Cons.prems(2)] by simp
  from Cons.IH[OF s2 this] show ?case
    using Cons.prems(1) by (simp add: p s1 s2)
qed

lemma poll_keeps_binding:
  "poll cfg sdk f s = (s', rs) \<Longrightarrow> evmToEntityCache s k = Some e
     \<Longrightarrow> evmToEntityCache s' k = Some e"
  by (auto simp: poll_def split: fetch_result.splits option.splits
      dest: processTransactions_keeps_binding)

lemma polls_keeps_binding:
  "polls cfg sdk fs s = (s', rs) \<Longrightarrow> evmToEntityCache s k = Some e
     \<Longrightarrow> evmToEntityCache s' k = Some e"
proof (induction fs arbitrary: s s' rs)
  case Nil
  then show ?case by simp
next
  case (Cons f fs)
  obtain s1 r where s1: "poll cfg sdk f s = (s1, r)" by fastforce
  obtain s2 rs2 where s2: "polls cfg sdk fs s1 = (s2, rs2)" by fastforce
  from Cons.IH[OF s2 poll_keeps_binding[OF s1 Cons.prems(2)]] show ?case
    using Cons.prems(1) by (simp add: s1 s2)
qed

text \<open>
  C7 (binding stability, first writer wins). Once an address is bound to an entity id in
  \<open>evmToEntityCache\<close>, a further \<open>updateCache\<close> for that address, with whatever id, leaves
  the whole monitor as it is; and the binding is still there, unchanged, after any
  sequence of \<open>updateCache\<close> calls and after any sequence of polling cycles.
\<close>

theorem binding_stability:
  assumes "evmToEntityCache s (normalizeEvmAddress addrX) = Some id42"
  shows "updateCache addrX id99 s = s
       \<and> evmToEntityCache (updateCache_all calls s) (normalizeEvmAddress addrX) = Some id42
       \<and> evmToEntityCache (fst (polls cfg sdk fetches s)) (normalizeEvmAddress addrX)
           = Some id42"
  using assms polls_keeps_binding[OF surjective_pairing assms]
  by (simp add: updateCache_bound_noop updateCache_all_keeps_binding)

theorem binding_stability_witness:
  "evmToEntityCache (updateCache ''0xAB'' ''0.0.42'' (new_monitor None))
       (normalizeEvmAddress ''0xAB'') = Some ''0.0.42''
   \<and> updateCache ''0xAB'' ''0.0.99'' (updateCache ''0xAB'' ''0.0.42'' (new_monitor None))
       = updateCache ''0xAB'' ''0.0.42'' (new_monitor None)
   \<and> evmToEntityCache
        (updateCache_all [(''ab'', ''0.0.99''), (''0xAB'', ''0.0.7'')]
           (updateCache ''0xAB'' ''0.0.42'' (new_monitor None)))
        (normalizeEvmAddress ''0xAB'') = Some ''0.0.42''
   \<and> evmToEntityCache
        (fst (polls \<lparr>watchedEvmAddresses = {''ab''}, addressLabels = Map.empty, debug = False\<rparr>
                (\<lambda>b. OtherTransaction) [FetchThrows ''down'', Fetched None]
                (updateCache ''0xAB'' ''0.0.42'' (new_monitor None))))
        (normalizeEvmAddress ''0xAB'') = Some ''0.0.42''"
proof -
  have h: "evmToEntityCache (updateCache ''0xAB'' ''0.0.42'' (new_monitor None))
             (normalizeEvmAddress ''0xAB'') = Some ''0.0.42''"
    by (simp add: updateCache_def new_monitor_def Let_def)
  from binding_stability[OF h, of "''0.0.99''" "[(''ab'', ''0.0.99''), (''0xAB'', ''0.0.7'')]"
      "\<lparr>watchedEvmAddresses = {''ab''}, addressLabels = Map.empty, debug = False\<rparr>"
      "\<lambda>b. OtherTransaction" "[FetchThrows ''down'', Fetched None]"]
  show ?thesis using h by blast
qed


section \<open>The watermark\<close>

lemma matchWatched_frame:
  "matchWatchedEvmTransfers tx ems ts s = (s', ms) \<Longrightarrow>
     lastTimestamp s' = lastTimestamp s \<and> processedTxIds s' = processedTxIds s
     \<and> totalProcessed s' = totalProcessed s \<and> matchesFound s' = matchesFound s
     \<and> onErrorCalls s' = onErrorCalls s \<and> debugLog s' = debugLog s"
proof (induction ts arbitrary: s s' ms)
  case Nil
  then show ?case by simp
next
  case (Cons t ts)
  show ?case
  proof (cases "alreadyFound ems t")
    case True
    with Cons show ?thesis by simp
  next
    case False
    let ?r = "findResolvedEntityId s (amountTinybar t) (transfers_or_empty tx)"
    let ?s1 = "case ?r of None \<Rightarrow> s | Some x \<Rightarrow> updateCache (evmAddressOf t) x s"
    obtain s2 ms2 where r: "matchWatchedEvmTransfers tx ems ts ?s1 = (s2, ms2)"
      by fastforce
    have "s' = s2" using Cons.prems(1) False r by (simp add: Let_def)
    with Cons.IH[OF r] show ?thesis by (cases ?r) simp_all
  qed
qed

lemma matchTransactionBody_frame:
  "matchTransactionBody cfg sdk tx d ems s = (s', ms, pt) \<Longrightarrow>
     lastTimestamp s' = lastTimestamp s \<and> processedTxIds s' = processedTxIds s
     \<and> totalProcessed s' = totalProcessed s \<and> matchesFound s' = matchesFound s
     \<and> onErrorCalls s' = onErrorCalls s"
  by (auto simp: matchTransactionBody_def
      split: details_response.splits option.splits list.splits parse_result.splits
        prod.splits if_splits
      dest: matchWatched_frame)

lemma processTransaction_lastTimestamp:
  "processTransaction cfg sdk tx d s = (s', r) \<Longrightarrow>
     lastTimestamp s' = lastTimestamp s \<and> onErrorCalls s' = onErrorCalls s"
  by (auto simp: processTransaction_def Let_def split: prod.splits if_splits
      dest!: matchTransactionBody_frame)






lemma feed_timestamps_take:
  "i \<le> j \<Longrightarrow> \<exists>zs. feed_timestamps (take j fs) = feed_timestamps (take i fs) @ zs"
proof -
  assume "i \<le> j"
  then have "take j fs = take i fs @ take (j - i) (drop i fs)"
    by (metis le_add_diff_inverse take_add)
  then show ?thesis by (simp add: feed_timestamps_def)
qed

lemma feed_timestamps_take_all:
  "\<exists>zs. feed_timestamps fs = feed_timestamps (take j fs) @ zs"
  by (metis append_take_drop_id concat_append feed_timestamps_def map_append)




























section \<open>The seen-set\<close>













lemma normalize_wallet_A: "normalizeEvmAddress wallet_A = wallet_A"
  by (simp add: normalizeEvmAddress_def wallet_A_def toLowerCase_def toLowerCase_char_def)

lemma wallet_A_nonempty: "wallet_A \<noteq> []"
  by (simp add: wallet_A_def)


lemma plain_tx_sel [simp]:
  "transaction_id (plain_tx i t) = i" "consensus_timestamp (plain_tx i t) = t"
  "transfers (plain_tx i t) = None"
  by (simp_all add: plain_tx_def)



















section \<open>Failure of the detail fetch\<close>

lemma checkTransfers_source:
  "m \<in> set (checkTransfersForWatchedEntityIds cfg s ts) \<Longrightarrow>
     m_source m = entity_cache \<and> m_resolvedEntityId m = None \<and> 0 < m_amount m
     \<and> (\<exists>t\<in>set ts. m_entityId m = Some (account t) \<and> m_amount m = amount t
            \<and> entityToEvmCache s (account t) = Some (m_evmAddress m))"
  by (induction ts) (auto split: option.splits if_splits)














section \<open>Matching and the identity cache\<close>

lemma findResolvedEntityId_Some:
  "findResolvedEntityId s amt ts = Some e \<Longrightarrow>
     entityToEvmCache s e = None \<and> e \<notin> set knownAccounts \<and> 0 < amt
     \<and> (\<exists>t\<in>set ts. account t = e \<and> amount t = amt)"
  by (induction ts) (auto split: if_splits)

lemma updateCache_map_le:
  "evmToEntityCache s \<subseteq>\<^sub>m evmToEntityCache (updateCache a e s)"
  by (auto simp: updateCache_def Let_def map_le_def)

lemma updateCache_reverse_map_le:
  "entityToEvmCache s e = None \<Longrightarrow> entityToEvmCache s \<subseteq>\<^sub>m entityToEvmCache (updateCache a e s)"
  by (auto simp: updateCache_def Let_def map_le_def)

lemma matchWatched_grows:
  "matchWatchedEvmTransfers tx ems ts s = (s', ms) \<Longrightarrow>
     evmToEntityCache s \<subseteq>\<^sub>m evmToEntityCache s' \<and> entityToEvmCache s \<subseteq>\<^sub>m entityToEvmCache s'"
proof (induction ts arbitrary: s s' ms)
  case Nil
  then show ?case by simp
next
  case (Cons t ts)
  show ?case
  proof (cases "alreadyFound ems t")
    case True
    with Cons show ?thesis by simp
  next
    case False
    let ?r = "findResolvedEntityId s (amountTinybar t) (transfers_or_empty tx)"
    let ?s1 = "case ?r of None \<Rightarrow> s | Some x \<Rightarrow> updateCache (evmAddressOf t) x s"
    obtain s2 ms2 where r: "matchWatchedEvmTransfers tx ems ts ?s1 = (s2, ms2)"
      by fastforce
    have s': "s' = s2" using Cons.prems(1) False r by (simp add: Let_def)
    have "evmToEntityCache s \<subseteq>\<^sub>m evmToEntityCache ?s1
          \<and> entityToEvmCache s \<subseteq>\<^sub>m entityToEvmCache ?s1"
    proof (cases ?r)
      case None
      then show ?thesis by simp
    next
      case (Some e)
      from findResolvedEntityId_Some[OF Some] have "entityToEvmCache s e = None" by simp
      then show ?thesis
        using Some updateCache_map_le updateCache_reverse_map_le by simp
    qed
    with Cons.IH[OF r] s' show ?thesis by (meson map_le_trans)
  qed
qed

lemma matchWatched_unresolved:
  "matchWatchedEvmTransfers tx ems ts s = (s', ms) \<Longrightarrow>
     \<forall>m\<in>set ms. m_resolvedEntityId m = None \<Longrightarrow> s' = s"
proof (induction ts arbitrary: s s' ms)
  case Nil
  then show ?case by simp
next
  case (Cons t ts)
  show ?case
  proof (cases "alreadyFound ems t")
    case True
    with Cons show ?thesis by simp
  next
    case False
    let ?r = "findResolvedEntityId s (amountTinybar t) (transfers_or_empty tx)"
    let ?s1 = "case ?r of None \<Rightarrow> s | Some x \<Rightarrow> updateCache (evmAddressOf t) x s"
    obtain s2 ms2 where r: "matchWatchedEvmTransfers tx ems ts ?s1 = (s2, ms2)"
      by fastforce
    have res: "s' = s2"
      "ms = \<lparr> m_entityId = None, m_evmAddress = evmAddressOf t,
               m_amount = amountTinybar t, m_label = labelOf t,
               m_resolvedEntityId = ?r, m_source = tx_body_parse \<rparr> # ms2"
      using Cons.prems(1) False r by (simp_all add: Let_def)
    have none: "?r = None" using Cons.prems(2) res(2) by simp
    then have "?s1 = s" by simp
    with Cons.IH[of s s2 ms2] r res Cons.prems(2) show ?thesis by simp
  qed
qed

lemma matchWatched_resolved_bound:
  "matchWatchedEvmTransfers tx ems ts s = (s', ms) \<Longrightarrow> m \<in> set ms \<Longrightarrow>
     m_resolvedEntityId m = Some e \<Longrightarrow>
     evmToEntityCache s' (normalizeEvmAddress (m_evmAddress m)) \<noteq> None"
proof (induction ts arbitrary: s s' ms)
  case Nil
  then show ?case by simp
next
  case (Cons t ts)
  show ?case
  proof (cases "alreadyFound ems t")
    case True
    with Cons show ?thesis by simp
  next
    case False
    let ?r = "findResolvedEntityId s (amountTinybar t) (transfers_or_empty tx)"
    let ?s1 = "case ?r of None \<Rightarrow> s | Some x \<Rightarrow> updateCache (evmAddressOf t) x s"
    let ?m = "\<lparr> m_entityId = None, m_evmAddress = evmAddressOf t,
               m_amount = amountTinybar t, m_label = labelOf t,
               m_resolvedEntityId = ?r, m_source = tx_body_parse \<rparr>"
    obtain s2 ms2 where r: "matchWatchedEvmTransfers tx ems ts ?s1 = (s2, ms2)"
      by fastforce
    have res: "s' = s2" "ms = ?m # ms2"
      using Cons.prems(1) False r by (simp_all add: Let_def)
    show ?thesis
    proof (cases "m \<in> set ms2")
      case True
      from Cons.IH[OF r True Cons.prems(3)] res show ?thesis by simp
    next
      case False
      then have m: "m = ?m" using Cons.prems(2) res(2) by simp
      then have re: "?r = Some e" using Cons.prems(3) by simp
      then have "evmToEntityCache ?s1 (normalizeEvmAddress (evmAddressOf t)) \<noteq> None"
        by (simp add: updateCache_def Let_def)
      then obtain v where "evmToEntityCache ?s1 (normalizeEvmAddress (evmAddressOf t)) = Some v"
        by blast
      from matchWatched_keeps_binding[OF r this] show ?thesis using res m by simp
    qed
  qed
qed

lemma matchTransactionBody_grows:
  "matchTransactionBody cfg sdk tx d ems s = (s', ms, pt) \<Longrightarrow>
     evmToEntityCache s \<subseteq>\<^sub>m evmToEntityCache s' \<and> entityToEvmCache s \<subseteq>\<^sub>m entityToEvmCache s'"
  by (auto simp: matchTransactionBody_def
      split: details_response.splits option.splits list.splits parse_result.splits
        prod.splits if_splits
      dest: matchWatched_grows)

lemma processTransaction_grows:
  "processTransaction cfg sdk tx d s = (s', r) \<Longrightarrow>
     evmToEntityCache s \<subseteq>\<^sub>m evmToEntityCache s' \<and> entityToEvmCache s \<subseteq>\<^sub>m entityToEvmCache s'"
  by (auto simp: processTransaction_def Let_def split: prod.splits if_splits
      dest!: matchTransactionBody_grows)

text \<open>
  C9 (matching and the reconciler), as the code has it. The loop that matches the watched
  transfers of the parsed body is not separate from binding: when it resolves an entity id
  for a transfer it calls \<open>updateCache\<close> before it records the match. It changes nothing
  of the monitor but the two caches; it only adds bindings, so every binding of either
  cache is kept; it leaves the monitor as it is when no match carries a resolved entity
  id; and the address of a match with a resolved entity id is bound afterwards. The same
  holds for \<open>processTransaction\<close> as a whole: both caches only grow.
\<close>

theorem matching_effect_on_reconciler:
  assumes "matchWatchedEvmTransfers tx entityMatches watched s = (s', ms)"
  shows "evmToEntityCache s \<subseteq>\<^sub>m evmToEntityCache s'
       \<and> entityToEvmCache s \<subseteq>\<^sub>m entityToEvmCache s'
       \<and> lastTimestamp s' = lastTimestamp s \<and> processedTxIds s' = processedTxIds s
       \<and> totalProcessed s' = totalProcessed s \<and> matchesFound s' = matchesFound s
       \<and> onErrorCalls s' = onErrorCalls s \<and> debugLog s' = debugLog s
       \<and> ((\<forall>m\<in>set ms. m_resolvedEntityId m = None) \<longrightarrow> s' = s)
       \<and> (\<forall>m\<in>set ms. \<forall>e. m_resolvedEntityId m = Some e \<longrightarrow>
             evmToEntityCache s' (normalizeEvmAddress (m_evmAddress m)) \<noteq> None)
       \<and> evmToEntityCache s0 \<subseteq>\<^sub>m evmToEntityCache (fst (processTransaction cfg sdk tx0 d0 s0))
       \<and> entityToEvmCache s0 \<subseteq>\<^sub>m entityToEvmCache (fst (processTransaction cfg sdk tx0 d0 s0))"
proof -
  note g = matchWatched_grows[OF assms]
  note f = matchWatched_frame[OF assms]
  have u: "(\<forall>m\<in>set ms. m_resolvedEntityId m = None) \<longrightarrow> s' = s"
    using matchWatched_unresolved[OF assms] by blast
  have b: "\<forall>m\<in>set ms. \<forall>e. m_resolvedEntityId m = Some e \<longrightarrow>
             evmToEntityCache s' (normalizeEvmAddress (m_evmAddress m)) \<noteq> None"
    using matchWatched_resolved_bound[OF assms] by blast
  note p = processTransaction_grows[OF surjective_pairing, where s = s0 and cfg = cfg
      and sdk = sdk and tx = tx0 and d = d0]
  from g f u b p show ?thesis by blast
qed

theorem matching_effect_on_reconciler_witness:
  "evmToEntityCache (new_monitor (Some 0))
     \<subseteq>\<^sub>m evmToEntityCache
          (fst (matchWatchedEvmTransfers lazy_create_tx []
                  (extractWatchedTransfers
                     (parseTransactionBytes default_config wallet_sdk ''CgQQBxgL''))
                  (new_monitor (Some 0))))
   \<and> processedTxIds
        (fst (matchWatchedEvmTransfers lazy_create_tx []
                (extractWatchedTransfers
                   (parseTransactionBytes default_config wallet_sdk ''CgQQBxgL''))
                (new_monitor (Some 0))))
       = processedTxIds (new_monitor (Some 0))
   \<and> entityToEvmCache (new_monitor (Some 0))
        \<subseteq>\<^sub>m entityToEvmCache
             (fst (processTransaction default_config wallet_sdk lazy_create_tx body_details
                     (new_monitor (Some 0))))"
proof -
  define X where "X = matchWatchedEvmTransfers lazy_create_tx []
                (extractWatchedTransfers
                   (parseTransactionBytes default_config wallet_sdk ''CgQQBxgL''))
                (new_monitor (Some 0))"
  have h: "matchWatchedEvmTransfers lazy_create_tx []
                (extractWatchedTransfers
                   (parseTransactionBytes default_config wallet_sdk ''CgQQBxgL''))
                (new_monitor (Some 0)) = (fst X, snd X)"
    by (simp add: X_def)
  note T = matching_effect_on_reconciler[OF h, of "new_monitor (Some 0)" default_config
      wallet_sdk lazy_create_tx body_details]
  from T show ?thesis unfolding X_def by blast
qed


text \<open>
  C9 as stated fails. For a transfer to the not yet created Wallet A, the matching loop
  (and so \<open>processTransaction\<close>) writes the binding of Wallet A to \<open>0.0.5005\<close> into the
  cache, which was empty before.
\<close>

theorem match_purity_counterexample:
  "evmToEntityCache (new_monitor (Some 0)) wallet_A = None
   \<and> evmToEntityCache
        (fst (matchWatchedEvmTransfers lazy_create_tx []
                (extractWatchedTransfers (parseTransactionBytes default_config wallet_sdk ''CgQQBxgL''))
                (new_monitor (Some 0)))) wallet_A = Some ''0.0.5005''
   \<and> evmToEntityCache
        (fst (processTransaction default_config wallet_sdk lazy_create_tx body_details
                (new_monitor (Some 0)))) wallet_A = Some ''0.0.5005''"
  by (simp add: new_monitor_def lazy_create_tx_def body_details_def wallet_sdk_def
      default_config_def processTransaction_def matchTransactionBody_def
      parseTransactionBytes_def parseTransfer_def extractWatchedTransfers_def isWatched_def
      isWatchedAddress_def normalize_wallet_A wallet_A_nonempty alreadyFound_def
      transfers_or_empty_def knownAccounts_def updateCache_def evmAddressOf_def
      limitCacheSize_def Let_def)



section \<open>Decode failures in the database monitor\<close>

lemma scanRow_events:
  "snd (scanRow cfg P eth r s) =
     (case parseTransactionBytes_db P (row_transaction_bytes r) of
        None \<Rightarrow> []
      | Some txBody \<Rightarrow> scanCryptoTransfer cfg r txBody @ scanEthereumTransaction cfg eth r txBody)"
  by (simp add: scanRow_def Let_def split: option.splits)

lemma scanRow_scanned: "stat_scanned (fst (scanRow cfg P eth r s)) = stat_scanned s + 1"
  by (simp add: scanRow_def Let_def split: option.splits)

lemma scanRows_events:
  "snd (scanRows cfg P eth rs s) = concat (map (\<lambda>r. snd (scanRow cfg P eth r s0)) rs)"
proof (induction rs arbitrary: s)
  case Nil
  then show ?case by simp
next
  case (Cons r rs)
  obtain s1 es where s1: "scanRow cfg P eth r s = (s1, es)" by fastforce
  have "es = snd (scanRow cfg P eth r s0)"
    using scanRow_events[of cfg P eth r s] scanRow_events[of cfg P eth r s0] s1 by simp
  with Cons.IH[of s1] show ?case by (auto simp: s1 split: prod.splits)
qed

lemma scanRows_scanned:
  "stat_scanned (fst (scanRows cfg P eth rs s)) = stat_scanned s + length rs"
proof (induction rs arbitrary: s)
  case Nil
  then show ?case by simp
next
  case (Cons r rs)
  obtain s1 es where s1: "scanRow cfg P eth r s = (s1, es)" by fastforce
  have "stat_scanned s1 = stat_scanned s + 1"
    using scanRow_scanned[of cfg P eth r s] s1 by simp
  with Cons.IH[of s1] show ?case by (auto simp: s1 split: prod.splits)
qed

text \<open>
  C6 (decode failure), as the code has it. When a \<open>decode\<close> throws at any of the three
  layers, \<open>parseTransactionBytes\<close> catches the error and answers \<open>null\<close>. A row whose bytes
  give \<open>null\<close> is counted as scanned, moves the cursor to its own marker and prints
  nothing; the events of a page with such a row are the events of the page without it, so
  the rows before and after it are processed as usual.
\<close>

theorem decode_failure_skips_row:
  "(decodeLayers P bs = Inl err \<longrightarrow> parseTransactionBytes_db P (Some bs) = None)
   \<and> (Transaction_decode P bs = Inl err \<longrightarrow> decodeLayers P bs = Inl err)
   \<and> (Transaction_decode P bs = Inr t \<and> signedTransactionBytes t = Some sb \<and> sb \<noteq> []
         \<and> SignedTransaction_decode P sb = Inl err \<longrightarrow> decodeLayers P bs = Inl err)
   \<and> (Transaction_decode P bs = Inr t \<and> signedTransactionBytes t = Some sb \<and> sb \<noteq> []
         \<and> SignedTransaction_decode P sb = Inr st \<and> st_bodyBytes st = Some bb \<and> bb \<noteq> []
         \<and> TransactionBody_decode P bb = Inl err \<longrightarrow> decodeLayers P bs = Inl err)
   \<and> (parseTransactionBytes_db P (row_transaction_bytes r) = None \<longrightarrow>
         scanRow cfg P eth r s
           = (s\<lparr> stat_scanned := stat_scanned s + 1,
                  lastConsensusTs := (case row_consensus_timestamp r of
                                        None \<Rightarrow> lastConsensusTs s | Some ts \<Rightarrow> ts) \<rparr>, [])
         \<and> snd (scanRows cfg P eth (before @ r # after) s)
             = snd (scanRows cfg P eth (before @ after) s)
         \<and> stat_scanned (fst (scanRows cfg P eth (before @ r # after) s))
             = stat_scanned s + length before + 1 + length after)"
proof -
  have a: "decodeLayers P bs = Inl err \<longrightarrow> parseTransactionBytes_db P (Some bs) = None"
    by (simp add: parseTransactionBytes_db_def)
  have b: "Transaction_decode P bs = Inl err \<longrightarrow> decodeLayers P bs = Inl err"
    by (simp add: decodeLayers_def)
  have c: "Transaction_decode P bs = Inr t \<and> signedTransactionBytes t = Some sb \<and> sb \<noteq> []
         \<and> SignedTransaction_decode P sb = Inl err \<longrightarrow> decodeLayers P bs = Inl err"
    by (simp add: decodeLayers_def)
  have d: "Transaction_decode P bs = Inr t \<and> signedTransactionBytes t = Some sb \<and> sb \<noteq> []
         \<and> SignedTransaction_decode P sb = Inr st \<and> st_bodyBytes st = Some bb \<and> bb \<noteq> []
         \<and> TransactionBody_decode P bb = Inl err \<longrightarrow> decodeLayers P bs = Inl err"
    by (simp add: decodeLayers_def)
  have e: "parseTransactionBytes_db P (row_transaction_bytes r) = None \<longrightarrow>
         scanRow cfg P eth r s
           = (s\<lparr> stat_scanned := stat_scanned s + 1,
                  lastConsensusTs := (case row_consensus_timestamp r of
                                        None \<Rightarrow> lastConsensusTs s | Some ts \<Rightarrow> ts) \<rparr>, [])
         \<and> snd (scanRows cfg P eth (before @ r # after) s)
             = snd (scanRows cfg P eth (before @ after) s)
         \<and> stat_scanned (fst (scanRows cfg P eth (before @ r # after) s))
             = stat_scanned s + length before + 1 + length after"
  proof
    assume n: "parseTransactionBytes_db P (row_transaction_bytes r) = None"
    have 1: "scanRow cfg P eth r s
           = (s\<lparr> stat_scanned := stat_scanned s + 1,
                  lastConsensusTs := (case row_consensus_timestamp r of
                                        None \<Rightarrow> lastConsensusTs s | Some ts \<Rightarrow> ts) \<rparr>, [])"
      using n by (simp add: scanRow_def Let_def)
    have "snd (scanRow cfg P eth r s) = []" using 1 by simp
    then have 2: "snd (scanRows cfg P eth (before @ r # after) s)
             = snd (scanRows cfg P eth (before @ after) s)"
      by (simp add: scanRows_events[where ?s0.0 = s])
    have 3: "stat_scanned (fst (scanRows cfg P eth (before @ r # after) s))
             = stat_scanned s + length before + 1 + length after"
      by (simp add: scanRows_scanned)
    from 1 2 3 show "scanRow cfg P eth r s
           = (s\<lparr> stat_scanned := stat_scanned s + 1,
                  lastConsensusTs := (case row_consensus_timestamp r of
                                        None \<Rightarrow> lastConsensusTs s | Some ts \<Rightarrow> ts) \<rparr>, [])
         \<and> snd (scanRows cfg P eth (before @ r # after) s)
             = snd (scanRows cfg P eth (before @ after) s)
         \<and> stat_scanned (fst (scanRows cfg P eth (before @ r # after) s))
             = stat_scanned s + length before + 1 + length after"
      by blast
  qed
  from a b c d e show ?thesis by blast
qed

theorem decode_failure_skips_row_witness:
  "decodeLayers body_failing_proto [10, 6, 10, 4] = Inl ''invalid wire type 7 at offset 1''
   \<and> parseTransactionBytes_db body_failing_proto (Some [10, 6, 10, 4]) = None
   \<and> snd (scanRows default_config_db body_failing_proto None
             ([plain_row (Some 5)]
              @ \<lparr> row_consensus_timestamp = Some 7, row_transaction_bytes = Some [10, 6, 10, 4],
                   row_transaction_hash = None \<rparr> # [plain_row (Some 9)])
             (new_scanner 3))
       = snd (scanRows default_config_db body_failing_proto None
                ([plain_row (Some 5)] @ [plain_row (Some 9)]) (new_scanner 3))
   \<and> lastConsensusTs (fst (scanRow default_config_db body_failing_proto None
             \<lparr> row_consensus_timestamp = Some 7, row_transaction_bytes = Some [10, 6, 10, 4],
                row_transaction_hash = None \<rparr> (new_scanner 3))) = 7"
proof -
  define r where "r = \<lparr> row_consensus_timestamp = Some 7,
                         row_transaction_bytes = Some [10, 6, 10, 4],
                         row_transaction_hash = (None :: bytes option) \<rparr>"
  have h: "decodeLayers body_failing_proto [10, 6, 10, 4]
             = Inl ''invalid wire type 7 at offset 1''"
    by (simp add: decodeLayers_def body_failing_proto_def)
  note T = decode_failure_skips_row[of body_failing_proto "[10, 6, 10, 4]"
      "''invalid wire type 7 at offset 1''" _ _ _ _ r default_config_db None "new_scanner 3"
      "[plain_row (Some 5)]" "[plain_row (Some 9)]"]
  have a: "parseTransactionBytes_db body_failing_proto (Some [10, 6, 10, 4]) = None"
    using T[THEN conjunct1] h by blast
  then have n: "parseTransactionBytes_db body_failing_proto (row_transaction_bytes r) = None"
    by (simp add: r_def)
  note U = T[THEN conjunct2, THEN conjunct2, THEN conjunct2, THEN conjunct2, rule_format, OF n]
  have b: "snd (scanRows default_config_db body_failing_proto None
             ([plain_row (Some 5)] @ r # [plain_row (Some 9)]) (new_scanner 3))
       = snd (scanRows default_config_db body_failing_proto None
                ([plain_row (Some 5)] @ [plain_row (Some 9)]) (new_scanner 3))"
    using U by blast
  have c: "lastConsensusTs (fst (scanRow default_config_db body_failing_proto None r
                                   (new_scanner 3))) = 7"
    using U[THEN conjunct1] by (simp add: r_def)
  from h a b c show ?thesis unfolding r_def by blast
qed

text \<open>
  C6 as stated fails in its first half: a failure at the outermost layer and a failure at
  the body layer both give \<open>null\<close>, the same answer as for missing bytes; the message of
  the thrown error is dropped and no layer is named.
\<close>

theorem decode_failure_counterexample:
  "decodeLayers failing_proto [10, 6, 10, 4] = Inl ''index out of range''
   \<and> decodeLayers body_failing_proto [10, 6, 10, 4] = Inl ''invalid wire type 7 at offset 1''
   \<and> parseTransactionBytes_db failing_proto (Some [10, 6, 10, 4]) = None
   \<and> parseTransactionBytes_db body_failing_proto (Some [10, 6, 10, 4]) = None
   \<and> parseTransactionBytes_db body_failing_proto None = None"
  by (simp add: parseTransactionBytes_db_def decodeLayers_def failing_proto_def
      body_failing_proto_def)



section \<open>Credits and matches\<close>

subsection \<open>The loop of the database monitor\<close>

lemma creditDestination_eq:
  "creditDestination aa =
     (if 0 < amount_or_zero aa
      then (case account_of aa of None \<Rightarrow> None | Some acc \<Rightarrow> Some (amount_or_zero aa, acc))
      else None)"
  by (simp add: creditDestination_def Let_def)

lemma scanAccountAmount_nonpositive:
  "amount_or_zero aa \<le> 0 \<Longrightarrow> creditDestination aa = None \<and> scanAccountAmount cfg r txBody aa = None"
  by (simp add: creditDestination_eq scanAccountAmount_def)

lemma normalize_db_toHex: "bs \<noteq> [] \<Longrightarrow> normalizeEvmAddress_db (Text (toHex bs)) = Some (toHex bs)"
proof -
  assume n: "bs \<noteq> []"
  have l: "is_lower_hex (toHex bs)" by (rule toHex_lower_hex)
  have "toHex bs \<noteq> []" using n length_toHex[of bs] by (cases "toHex bs") auto
  moreover have "toLowerCase (toHex bs) = toHex bs" using l by (rule toLowerCase_lower_hex)
  moreover have "replace_prefix_0x (toHex bs) = toHex bs"
    using lower_hex_no_x[OF l] by (rule replace_prefix_0x_no_x)
  ultimately show ?thesis by simp
qed

lemma scanAccountAmount_Some:
  "scanAccountAmount cfg r txBody aa = Some e \<longleftrightarrow>
     (\<exists>acc al. 0 < amount_or_zero aa \<and> account_of aa = Some acc \<and> acc_alias acc = Some al
        \<and> length al = 20 \<and> toHex al \<in> db_watchedEvmAddresses cfg
        \<and> e = \<lparr> dbe_evmAddress = toHex al, dbe_label = label_db cfg (toHex al),
                  dbe_amountTinybar = Some (amount_or_zero aa), dbe_ethereumValueWei = None,
                  dbe_transactionHash = bufferToHexMaybe (row_transaction_hash r),
                  dbe_consensusTimestamp = row_consensus_timestamp r,
                  dbe_senderUsedEvmAddress = True,
                  dbe_transactionType = CRYPTOTRANSFER,
                  dbe_memo = memo_or_null txBody \<rparr>)"
proof (cases "0 < amount_or_zero aa")
  case False
  then show ?thesis by (simp add: scanAccountAmount_def creditDestination_eq)
next
  case pos: True
  show ?thesis
  proof (cases "account_of aa")
    case None
    then show ?thesis by (simp add: scanAccountAmount_def creditDestination_eq pos)
  next
    case (Some acc)
    show ?thesis
    proof (cases "acc_alias acc")
      case None
      then show ?thesis by (simp add: scanAccountAmount_def creditDestination_eq pos Some)
    next
      case al: (Some al)
      show ?thesis
      proof (cases "length al = 20")
        case False
        then show ?thesis by (simp add: scanAccountAmount_def creditDestination_eq pos Some al)
      next
        case True
        then have "al \<noteq> []" by auto
        from normalize_db_toHex[OF this] True show ?thesis
          by (auto simp: scanAccountAmount_def creditDestination_eq pos Some al)
      qed
    qed
  qed
qed

lemma scanAccountAmounts_set:
  "e \<in> set (scanAccountAmounts cfg r txBody aas) \<longleftrightarrow>
     (\<exists>aa\<in>set aas. scanAccountAmount cfg r txBody aa = Some e)"
  by (induction aas) (auto split: option.splits)

lemma scanAccountAmounts_filter:
  "scanAccountAmounts cfg r txBody (filter (\<lambda>aa. 0 < amount_or_zero aa) aas)
     = scanAccountAmounts cfg r txBody aas"
proof (induction aas)
  case Nil
  then show ?case by simp
next
  case (Cons aa aas)
  show ?case
  proof (cases "0 < amount_or_zero aa")
    case True
    with Cons show ?thesis by (simp split: option.splits)
  next
    case False
    then have "scanAccountAmount cfg r txBody aa = None"
      using scanAccountAmount_nonpositive[of aa cfg r txBody] by simp
    with False Cons show ?thesis by simp
  qed
qed

subsection \<open>Parsed transfers and matches of the polling monitor\<close>

lemma parseTransfers_map: "parseTransfers cfg hb = map (parseTransfer cfg) hb"
  by (induction hb) simp_all

lemma parseTransfer_sel:
  "amountTinybar (parseTransfer cfg (acc, amt)) = amt"
  "isCredit (parseTransfer cfg (acc, amt)) = (0 < amt)"
  by (simp_all add: parseTransfer_def)

lemma parseTransfers_credit:
  "t \<in> set (parseTransfers cfg hb) \<Longrightarrow> isCredit t = (0 < amountTinybar t)"
  by (auto simp: parseTransfers_map parseTransfer_def)

lemma extractWatchedTransfers_evm:
  "t \<in> set (extractWatchedTransfers p) \<Longrightarrow> isEvmAddressType t \<and> isWatched t \<and> isCredit t"
  by (auto simp: extractWatchedTransfers_def isWatched_def isEvmAddressType_def
      split: parse_result.splits transfer_dest.splits)

lemma extractWatched_positive:
  "t \<in> set (extractWatchedTransfers (parseTransactionBytes cfg sdk b)) \<Longrightarrow> 0 < amountTinybar t"
  by (auto simp: extractWatchedTransfers_def parseTransactionBytes_def
      split: sdk_transaction.splits dest: parseTransfers_credit)

lemma checkTransfers_filter:
  "checkTransfersForWatchedEntityIds cfg s (filter (\<lambda>t. 0 < amount t) ts)
     = checkTransfersForWatchedEntityIds cfg s ts"
  by (induction ts) (auto split: option.splits)


lemma matchWatched_matches:
  "matchWatchedEvmTransfers tx ems ts s = (s', ms) \<Longrightarrow> m \<in> set ms \<Longrightarrow>
     \<exists>t\<in>set ts. m_amount m = amountTinybar t \<and> m_evmAddress m = evmAddressOf t
        \<and> m_source m = tx_body_parse \<and> m_entityId m = None \<and> \<not> alreadyFound ems t"
proof (induction ts arbitrary: s s' ms)
  case Nil
  then show ?case by simp
next
  case (Cons t ts)
  show ?case
  proof (cases "alreadyFound ems t")
    case True
    with Cons.prems have "matchWatchedEvmTransfers tx ems ts s = (s', ms)" by simp
    from Cons.IH[OF this Cons.prems(2)] show ?thesis by auto
  next
    case False
    let ?r = "findResolvedEntityId s (amountTinybar t) (transfers_or_empty tx)"
    let ?s1 = "case ?r of None \<Rightarrow> s | Some x \<Rightarrow> updateCache (evmAddressOf t) x s"
    let ?m = "\<lparr> m_entityId = None, m_evmAddress = evmAddressOf t,
               m_amount = amountTinybar t, m_label = labelOf t,
               m_resolvedEntityId = ?r, m_source = tx_body_parse \<rparr>"
    obtain s2 ms2 where r: "matchWatchedEvmTransfers tx ems ts ?s1 = (s2, ms2)"
      by fastforce
    have res: "ms = ?m # ms2" using Cons.prems(1) False r by (simp add: Let_def)
    show ?thesis
    proof (cases "m \<in> set ms2")
      case True
      from Cons.IH[OF r True] show ?thesis by auto
    next
      case nin: False
      then have "m = ?m" using Cons.prems(2) res by simp
      with False show ?thesis by simp
    qed
  qed
qed



lemma matchTransactionBody_cases:
  assumes a: "matchTransactionBody cfg sdk tx d ems s = (s', ms, pt)"
  shows "(ms = [] \<and> pt = None)
     \<or> (\<exists>b ts memo. parseTransactionBytes cfg sdk b = Success ts memo \<and> pt = Some ts
           \<and> matchWatchedEvmTransfers tx ems
                (extractWatchedTransfers (parseTransactionBytes cfg sdk b)) s = (s', ms))"
proof (cases d)
  case (DetailsThrows msg)
  with a show ?thesis by (simp add: matchTransactionBody_def)
next
  case (Details x)
  show ?thesis
  proof (cases x)
    case None
    with a Details show ?thesis by (simp add: matchTransactionBody_def)
  next
    case (Some l)
    show ?thesis
    proof (cases l)
      case Nil
      with a Details Some show ?thesis by (simp add: matchTransactionBody_def)
    next
      case (Cons txData others)
      show ?thesis
      proof (cases "transaction_body txData")
        case None
        with a Details Some Cons show ?thesis by (simp add: matchTransactionBody_def)
      next
        case body: (Some b)
        show ?thesis
        proof (cases "b = []")
          case True
          with a Details Some Cons body show ?thesis by (simp add: matchTransactionBody_def)
        next
          case False
          show ?thesis
          proof (cases "parseTransactionBytes cfg sdk b")
            case (Failure r)
            with a Details Some Cons body False show ?thesis
              by (simp add: matchTransactionBody_def)
          next
            case (Success ts memo)
            obtain s1 ms1 where
              r: "matchWatchedEvmTransfers tx ems (extractWatchedTransfers (Success ts memo)) s
                    = (s1, ms1)"
              by fastforce
            with a Details Some Cons body False Success
            have "s' = s1" "ms = ms1" "pt = Some ts"
              by (simp_all add: matchTransactionBody_def)
            with r Success show ?thesis by auto
          qed
        qed
      qed
    qed
  qed
qed

lemma matchTransactionBody_positive:
  "matchTransactionBody cfg sdk tx d ems s = (s', ms, pt) \<Longrightarrow> m \<in> set ms \<Longrightarrow> 0 < m_amount m"
proof -
  assume a: "matchTransactionBody cfg sdk tx d ems s = (s', ms, pt)" and m: "m \<in> set ms"
  from matchTransactionBody_cases[OF a] m obtain b where
    "matchWatchedEvmTransfers tx ems
       (extractWatchedTransfers (parseTransactionBytes cfg sdk b)) s = (s', ms)"
    by auto
  from matchWatched_matches[OF this m] obtain t where
    "t \<in> set (extractWatchedTransfers (parseTransactionBytes cfg sdk b))"
    "m_amount m = amountTinybar t"
    by blast
  then show ?thesis using extractWatched_positive by simp
qed

lemma processTransaction_positive:
  assumes "processTransaction cfg sdk tx d s = (s', Some (i, evs))" and "e \<in> set evs"
  shows "0 < ev_amount e"
proof -
  let ?s1 = "s\<lparr> processedTxIds := limitCacheSize (processedTxIds s @ [transaction_id tx]),
                  totalProcessed := totalProcessed s + 1 \<rparr>"
  let ?ems = "checkTransfersForWatchedEntityIds cfg ?s1 (transfers_or_empty tx)"
  obtain s2 ms pt where mb: "matchTransactionBody cfg sdk tx d ?ems ?s1 = (s2, ms, pt)"
    by (metis prod_cases3)
  have "evs = map (report tx pt) (?ems @ ms)"
    using assms(1) mb by (auto simp: processTransaction_def Let_def split: if_splits)
  then obtain m where m: "m \<in> set (?ems @ ms)" "e = report tx pt m"
    using assms(2) by auto
  have "0 < m_amount m"
  proof (cases "m \<in> set ?ems")
    case True
    from checkTransfers_source[OF this] show ?thesis by simp
  next
    case False
    then have "m \<in> set ms" using m(1) by simp
    from matchTransactionBody_positive[OF mb this] show ?thesis .
  qed
  then show ?thesis using m(2) by (simp add: report_def)
qed

lemma scanAccountAmounts_positive:
  "e \<in> set (scanAccountAmounts cfg r txBody aas) \<Longrightarrow> \<exists>amt. dbe_amountTinybar e = Some amt \<and> 0 < amt"
  unfolding scanAccountAmounts_set scanAccountAmount_Some by auto

text \<open>
  C4 (credits only). In the database monitor an entry whose amount is not greater than
  zero is left before its destination is looked at, the events of a transfer list are
  those of its entries with positive amount, and every event carries a positive amount;
  of the entries (\<open>addrA\<close>, +100), (\<open>idB\<close>, +50), (\<open>idC\<close>, -150) exactly the first two
  reach the destination check. In the polling monitor a parsed transfer is a credit
  exactly when its amount is positive, the three entries give exactly two credits, the
  watched transfers taken from a body are credits, the entity-cache check ignores
  entries that are not positive, and every event handed to the callback carries a
  positive amount.
\<close>

theorem credits_only:
  "(amount_or_zero aa \<le> 0 \<longrightarrow>
      creditDestination aa = None \<and> scanAccountAmount dcfg r txBody aa = None)
   \<and> scanAccountAmounts dcfg r txBody (filter (\<lambda>aa. 0 < amount_or_zero aa) aas)
       = scanAccountAmounts dcfg r txBody aas
   \<and> (\<forall>e\<in>set (scanAccountAmounts dcfg r txBody aas).
         \<exists>amt. dbe_amountTinybar e = Some amt \<and> 0 < amt)
   \<and> List.map_filter creditDestination
        [credit_entry addrA 100, credit_entry idB 50, credit_entry idC (- 150)]
       = [(100, addrA), (50, idB)]
   \<and> map isCredit (parseTransfers cfg hb) = map (\<lambda>p. 0 < snd p) hb
   \<and> filter isCredit (parseTransfers cfg [(a, 100), (b, 50), (c, - 150)])
       = [parseTransfer cfg (a, 100), parseTransfer cfg (b, 50)]
   \<and> (\<forall>t\<in>set (extractWatchedTransfers (parseTransactionBytes cfg sdk body)).
         isCredit t \<and> 0 < amountTinybar t)
   \<and> checkTransfersForWatchedEntityIds cfg s (filter (\<lambda>t. 0 < amount t) ts)
       = checkTransfersForWatchedEntityIds cfg s ts
   \<and> (\<forall>i evs. snd (processTransaction cfg sdk tx d s) = Some (i, evs)
         \<longrightarrow> (\<forall>e\<in>set evs. 0 < ev_amount e))"
proof -
  have c1: "amount_or_zero aa \<le> 0 \<longrightarrow>
      creditDestination aa = None \<and> scanAccountAmount dcfg r txBody aa = None"
    using scanAccountAmount_nonpositive by blast
  have c3: "\<forall>e\<in>set (scanAccountAmounts dcfg r txBody aas).
         \<exists>amt. dbe_amountTinybar e = Some amt \<and> 0 < amt"
    using scanAccountAmounts_positive by blast
  have c4: "List.map_filter creditDestination
        [credit_entry addrA 100, credit_entry idB 50, credit_entry idC (- 150)]
       = [(100, addrA), (50, idB)]"
    by (simp add: List.map_filter_def creditDestination_eq credit_entry_def amount_or_zero_def
        account_of_def)
  have c5: "map isCredit (parseTransfers cfg hb) = map (\<lambda>p. 0 < snd p) hb"
    by (induction hb) (auto simp: parseTransfer_def)
  have c6: "filter isCredit (parseTransfers cfg [(a, 100), (b, 50), (c, - 150)])
       = [parseTransfer cfg (a, 100), parseTransfer cfg (b, 50)]"
    by (simp add: parseTransfer_sel)
  have c7: "\<forall>t\<in>set (extractWatchedTransfers (parseTransactionBytes cfg sdk body)).
         isCredit t \<and> 0 < amountTinybar t"
    using extractWatchedTransfers_evm extractWatched_positive by blast
  have c9: "\<forall>i evs. snd (processTransaction cfg sdk tx d s) = Some (i, evs)
         \<longrightarrow> (\<forall>e\<in>set evs. 0 < ev_amount e)"
  proof (intro allI impI ballI)
    fix i evs e
    assume "snd (processTransaction cfg sdk tx d s) = Some (i, evs)" and e: "e \<in> set evs"
    then have "processTransaction cfg sdk tx d s
                 = (fst (processTransaction cfg sdk tx d s), Some (i, evs))"
      by (metis prod.collapse)
    from processTransaction_positive[OF this e] show "0 < ev_amount e" .
  qed
  from c1 scanAccountAmounts_filter[of dcfg r txBody aas] c3 c4 c5 c6 c7
    checkTransfers_filter[of cfg s ts] c9
  show ?thesis by blast
qed


theorem credits_only_witness:
  "amount_or_zero (credit_entry wallet_A_account (- 150)) \<le> 0
   \<and> creditDestination (credit_entry wallet_A_account (- 150)) = None
   \<and> scanAccountAmount default_config_db (plain_row (Some 7)) empty_body
        (credit_entry wallet_A_account (- 150)) = None"
proof -
  have h: "amount_or_zero (credit_entry wallet_A_account (- 150)) \<le> 0"
    by (simp add: amount_or_zero_def credit_entry_def)
  from credits_only[THEN conjunct1, of "credit_entry wallet_A_account (- 150)"
      default_config_db "plain_row (Some 7)" empty_body] h
  show ?thesis by blast
qed

section \<open>What the matchers emit\<close>














lemma cache_watched_cong:
  "entityToEvmCache s1 = entityToEvmCache s \<Longrightarrow> cache_watched cfg s1 = cache_watched cfg s"
  by (simp add: cache_watched_def)











section \<open>Transport errors\<close>

text \<open>
  C8 (transport-error atomicity). A cycle whose fetch throws hands the message to
  \<open>onError\<close> (the database monitor prints it with \<open>console.error\<close>) and changes nothing
  else of the polling monitor (the database monitor counts the poll): the cursor is as
  before, and so is the lower bound that the next request carries.
\<close>

theorem transport_error_atomicity:
  "poll cfg sdk (FetchThrows msg) s = (s\<lparr>onErrorCalls := onErrorCalls s @ [msg]\<rparr>, [])
   \<and> lastTimestamp (fst (poll cfg sdk (FetchThrows msg) s)) = lastTimestamp s
   \<and> requestTimestamp (fst (poll cfg sdk (FetchThrows msg) s)) = requestTimestamp s
   \<and> pollOnce dcfg P eth (QueryThrows msg) d
       = (d\<lparr>stat_polls := stat_polls d + 1, pollErrors := pollErrors d @ [msg]\<rparr>, [])
   \<and> lastConsensusTs (fst (pollOnce dcfg P eth (QueryThrows msg) d)) = lastConsensusTs d
   \<and> queryLowerBound (fst (pollOnce dcfg P eth (QueryThrows msg) d)) = queryLowerBound d"
  by (simp add: poll_def pollOnce_def Let_def requestTimestamp_def queryLowerBound_def)


end
